theory Spec2Isabelle
  imports Main "HOL-Library.Word"
begin

unbundle bit_operations_syntax

section \<open>Basic types\<close>

text \<open>
  A Go \<open>error\<close> built by \<open>errors.New(msg)\<close> is represented by its message; a function
  returning \<open>(T, error)\<close> returns \<open>error + T\<close> (\<open>Inl\<close> the error), and one returning only
  \<open>error\<close> returns \<open>error option\<close> (\<open>None\<close> is \<open>nil\<close>).
\<close>

type_synonym error = string

text \<open>\<open>[]byte\<close>.\<close>

type_synonym bytes = "8 word list"

text \<open>
  \<open>time.Time\<close> as nanoseconds since the Unix epoch and \<open>time.Duration\<close> as nanoseconds.
  Every call of \<open>time.Now()\<close> and of \<open>uuid.New()\<close> in the source is an explicit argument of
  the function that makes the call (the value the call returned), in the order of the calls.
\<close>

type_synonym Time = int
type_synonym Duration = int

definition zeroTime :: Time where
  "zeroTime = - 62135596800 * 1000000000"

subsection \<open>\<open>uuid.UUID\<close>: an array of 16 bytes\<close>

typedef UUID = "{bs :: bytes. length bs = 16}"
  by (rule exI [of _ "replicate 16 0"]) simp

definition uuid_Nil :: UUID where
  "uuid_Nil = Abs_UUID (replicate 16 0)"

text \<open>Writing bytes into a zero-initialised \<open>var uuid UUID\<close>.\<close>

definition UUID_of :: "bytes \<Rightarrow> UUID" where
  "UUID_of bs = Abs_UUID (take 16 (bs @ replicate 16 0))"

definition hexdigit :: "8 word \<Rightarrow> char" where
  "hexdigit n = ''0123456789abcdef'' ! unat n"

text \<open>\<open>hex.Encode\<close>: two lower-case hexadecimal digits per byte, the high nibble first.\<close>

definition hex_Encode :: "bytes \<Rightarrow> string" where
  "hex_Encode src = concat (map (\<lambda>b. [hexdigit (drop_bit 4 b), hexdigit (b AND 0x0f)]) src)"

text \<open>\<open>UUID.String\<close> through \<open>encodeHex\<close>: the form xxxxxxxx-xxxx-xxxx-xxxx-xxxxxxxxxxxx.\<close>

definition UUID_String :: "UUID \<Rightarrow> string" where
  "UUID_String u =
     (let b = Rep_UUID u in
        hex_Encode (take 4 b) @ ''-'' @ hex_Encode (take 2 (drop 4 b)) @ ''-'' @
        hex_Encode (take 2 (drop 6 b)) @ ''-'' @ hex_Encode (take 2 (drop 8 b)) @ ''-'' @
        hex_Encode (drop 10 b))"

section \<open>Domain: users and the role hierarchy (domain/user.go)\<close>

type_synonym UserRole = string

definition RoleAdmin :: UserRole where "RoleAdmin = ''admin''"
definition RoleAnalyst :: UserRole where "RoleAnalyst = ''analyst''"
definition RoleViewer :: UserRole where "RoleViewer = ''viewer''"

record User =
  ID :: UUID
  Email :: string
  PasswordHash :: string
  Role :: UserRole
  IsActive :: bool
  CreatedAt :: Time
  UpdatedAt :: Time

text \<open>The zero value \<open>User{}\<close>.\<close>

definition zeroUser :: User where
  "zeroUser = \<lparr>User.ID = uuid_Nil, Email = [], PasswordHash = [], Role = [], IsActive = False,
                CreatedAt = zeroTime, UpdatedAt = zeroTime\<rparr>"

text \<open>Indexing a Go \<open>map[K]int\<close> or \<open>map[K]bool\<close>: a missing key yields the zero value.\<close>

definition index_int :: "('k \<rightharpoonup> int) \<Rightarrow> 'k \<Rightarrow> int" where
  "index_int m k = (case m k of None \<Rightarrow> 0 | Some v \<Rightarrow> v)"

definition index_bool :: "('k \<rightharpoonup> bool) \<Rightarrow> 'k \<Rightarrow> bool" where
  "index_bool m k = (case m k of None \<Rightarrow> False | Some v \<Rightarrow> v)"

definition roleHierarchy :: "UserRole \<rightharpoonup> int" where
  "roleHierarchy = [RoleViewer \<mapsto> 1, RoleAnalyst \<mapsto> 2, RoleAdmin \<mapsto> 3]"

definition HasPermission :: "User \<Rightarrow> UserRole \<Rightarrow> bool" where
  "HasPermission u requiredRole =
     (index_int roleHierarchy (Role u) \<ge> index_int roleHierarchy requiredRole)"

text \<open>
  \<open>User.ValidatePassword\<close>: \<open>bcrypt.CompareHashAndPassword\<close> belongs to an external library
  and is a parameter (hash first, then the password; \<open>None\<close> is a match).
\<close>

definition ValidatePassword :: "(string \<Rightarrow> string \<Rightarrow> error option) \<Rightarrow> User \<Rightarrow> string \<Rightarrow> bool" where
  "ValidatePassword CompareHashAndPassword u password =
     (let err = CompareHashAndPassword (PasswordHash u) password in err = None)"

text \<open>
  The specification's reading of the hierarchy, from its words: three roles with ranks
  Admin = 3, Analyst = 2, Viewer = 1.
\<close>

datatype spec_role = Viewer | Analyst | Admin

primrec spec_rank :: "spec_role \<Rightarrow> nat" where
  "spec_rank Viewer = 1"
| "spec_rank Analyst = 2"
| "spec_rank Admin = 3"

primrec role_of :: "spec_role \<Rightarrow> UserRole" where
  "role_of Viewer = RoleViewer"
| "role_of Analyst = RoleAnalyst"
| "role_of Admin = RoleAdmin"

section \<open>Domain: orders (domain/order.go)\<close>

type_synonym OrderStatus = string

definition OrderStatusPending :: OrderStatus where "OrderStatusPending = ''pending''"
definition OrderStatusConfirmed :: OrderStatus where "OrderStatusConfirmed = ''confirmed''"
definition OrderStatusCompleted :: OrderStatus where "OrderStatusCompleted = ''completed''"
definition OrderStatusCancelled :: OrderStatus where "OrderStatusCancelled = ''cancelled''"

record Order =
  ID :: UUID
  UserID :: UUID
  ItemID :: string
  Quantity :: int
  Status :: OrderStatus
  CreatedAt :: Time
  UpdatedAt :: Time
  User :: User

record OrderAggregate =
  Order :: Order

text \<open>
  \<open>NewOrder\<close>: \<open>newID\<close> is the result of \<open>uuid.New()\<close>, \<open>now1\<close> and \<open>now2\<close> those of the two
  \<open>time.Now()\<close> calls; the \<open>User\<close> field is not set and keeps its zero value.
\<close>

definition NewOrder :: "UUID \<Rightarrow> Time \<Rightarrow> Time \<Rightarrow> UUID \<Rightarrow> string \<Rightarrow> int \<Rightarrow> OrderAggregate" where
  "NewOrder newID now1 now2 userID itemID quantity =
     \<lparr>Order = \<lparr>Order.ID = newID, UserID = userID, ItemID = itemID, Quantity = quantity,
                Status = OrderStatusPending, CreatedAt = now1, UpdatedAt = now2,
                User = zeroUser\<rparr>\<rparr>"

definition Confirm :: "Time \<Rightarrow> OrderAggregate \<Rightarrow> OrderAggregate" where
  "Confirm now oa = oa\<lparr>Order := (Order oa)\<lparr>Status := OrderStatusConfirmed, Order.UpdatedAt := now\<rparr>\<rparr>"

definition Complete :: "Time \<Rightarrow> OrderAggregate \<Rightarrow> OrderAggregate" where
  "Complete now oa = oa\<lparr>Order := (Order oa)\<lparr>Status := OrderStatusCompleted, Order.UpdatedAt := now\<rparr>\<rparr>"

definition Cancel :: "Time \<Rightarrow> OrderAggregate \<Rightarrow> OrderAggregate" where
  "Cancel now oa = oa\<lparr>Order := (Order oa)\<lparr>Status := OrderStatusCancelled, Order.UpdatedAt := now\<rparr>\<rparr>"

text \<open>
  A sequence of calls on one aggregate, each with the clock reading it takes, and the
  statuses the order goes through (the status before the first call included).
\<close>

datatype Call = CallConfirm | CallComplete | CallCancel

primrec call :: "Call \<Rightarrow> Time \<Rightarrow> OrderAggregate \<Rightarrow> OrderAggregate" where
  "call CallConfirm = Confirm"
| "call CallComplete = Complete"
| "call CallCancel = Cancel"

primrec target :: "Call \<Rightarrow> OrderStatus" where
  "target CallConfirm = OrderStatusConfirmed"
| "target CallComplete = OrderStatusCompleted"
| "target CallCancel = OrderStatusCancelled"

primrec history :: "(Call \<times> Time) list \<Rightarrow> OrderAggregate \<Rightarrow> OrderStatus list" where
  "history [] oa = [Order.Status (Order oa)]"
| "history (c # cs) oa = Order.Status (Order oa) # history cs (call (fst c) (snd c) oa)"

primrec run :: "(Call \<times> Time) list \<Rightarrow> OrderAggregate \<Rightarrow> OrderAggregate" where
  "run [] oa = oa"
| "run (c # cs) oa = run cs (call (fst c) (snd c) oa)"

text \<open>
  The specification's transition graph, from its words: Pending to Confirmed, Confirmed to
  Completed, and Pending or Confirmed to Cancelled; a status list stays within the graph
  when each status follows its predecessor along an edge.
\<close>

definition edge :: "OrderStatus \<Rightarrow> OrderStatus \<Rightarrow> bool" where
  "edge a b =
     (a = OrderStatusPending \<and> b = OrderStatusConfirmed \<or>
      a = OrderStatusConfirmed \<and> b = OrderStatusCompleted \<or>
      a = OrderStatusPending \<and> b = OrderStatusCancelled \<or>
      a = OrderStatusConfirmed \<and> b = OrderStatusCancelled)"

fun within_graph :: "OrderStatus list \<Rightarrow> bool" where
  "within_graph (a # b # rest) = (edge a b \<and> within_graph (b # rest))"
| "within_graph _ = True"

section \<open>Application: the order service (application/order_service.go)\<close>

text \<open>
  The repository interfaces (domain/order.go) as records of their methods over a store
  \<open>'db\<close>. A finder reads the store; \<open>Save\<close> returns its error and the store it leaves.
\<close>

record 'db OrderRepository =
  Save :: "Order \<Rightarrow> 'db \<Rightarrow> error option \<times> 'db"
  FindByID :: "UUID \<Rightarrow> 'db \<Rightarrow> error + Order"
  FindByUserID :: "UUID \<Rightarrow> 'db \<Rightarrow> error + Order list"

record 'db UserRepository =
  Save :: "User \<Rightarrow> 'db \<Rightarrow> error option \<times> 'db"
  FindByID :: "UUID \<Rightarrow> 'db \<Rightarrow> error + User"
  FindByEmail :: "string \<Rightarrow> 'db \<Rightarrow> error + User"

record 'db OrderService =
  orderRepo :: "'db OrderRepository"
  userRepo :: "'db UserRepository"

record CreateOrderRequest =
  ItemID :: string
  Quantity :: int

record OrderResponse =
  OrderID :: string
  Status :: OrderStatus

definition validItems :: "string \<rightharpoonup> bool" where
  "validItems = [''intel-basic'' \<mapsto> True, ''intel-premium'' \<mapsto> True, ''intel-enterprise'' \<mapsto> True]"

text \<open>
  \<open>OrderService.CreateOrder\<close>. \<open>newID\<close>, \<open>now1\<close>, \<open>now2\<close> are what \<open>NewOrder\<close> draws and
  \<open>now3\<close> is the clock reading of \<open>Confirm\<close>.
\<close>

definition CreateOrder ::
  "'db OrderService \<Rightarrow> UUID \<Rightarrow> Time \<Rightarrow> Time \<Rightarrow> Time \<Rightarrow> UUID \<Rightarrow> CreateOrderRequest \<Rightarrow> 'db
     \<Rightarrow> (error + OrderResponse) \<times> 'db" where
  "CreateOrder s newID now1 now2 now3 userID req db =
     (if \<not> index_bool validItems (CreateOrderRequest.ItemID req) then (Inl ''invalid item_id'', db)
      else
        (case UserRepository.FindByID (userRepo s) userID db of
           Inl err \<Rightarrow> (Inl ''user not found'', db)
         | Inr user \<Rightarrow>
             (if \<not> HasPermission user RoleViewer then (Inl ''insufficient permissions'', db)
              else
                (let orderAggregate =
                       Confirm now3
                         (NewOrder newID now1 now2 userID (CreateOrderRequest.ItemID req)
                            (CreateOrderRequest.Quantity req))
                 in (case OrderRepository.Save (orderRepo s) (Order orderAggregate) db of
                       (Some err, db') \<Rightarrow> (Inl err, db')
                     | (None, db') \<Rightarrow>
                         (Inr \<lparr>OrderID = UUID_String (Order.ID (Order orderAggregate)),
                               Status = Order.Status (Order orderAggregate)\<rparr>, db'))))))"

definition GetOrder :: "'db OrderService \<Rightarrow> UUID \<Rightarrow> UUID \<Rightarrow> 'db \<Rightarrow> error + Order" where
  "GetOrder s orderID userID db =
     (case OrderRepository.FindByID (orderRepo s) orderID db of
        Inl err \<Rightarrow> Inl err
      | Inr order' \<Rightarrow>
          (case UserRepository.FindByID (userRepo s) userID db of
             Inl err \<Rightarrow> Inl err
           | Inr user \<Rightarrow>
               if Order.UserID order' \<noteq> userID \<and> \<not> HasPermission user RoleAnalyst
               then Inl ''access denied''
               else Inr order'))"

definition GetUserOrders :: "'db OrderService \<Rightarrow> UUID \<Rightarrow> 'db \<Rightarrow> error + Order list" where
  "GetUserOrders s userID db = OrderRepository.FindByUserID (orderRepo s) userID db"

section \<open>External libraries\<close>

text \<open>
  The token service calls \<open>github.com/google/uuid\<close>, \<open>github.com/golang-jwt/jwt/v5\<close> and,
  through it, \<open>crypto/hmac\<close> and \<open>encoding/json\<close>. They are not part of the repository;
  this section models what they compute, as far as the service depends on it.
\<close>

subsection \<open>Durations and numeric dates\<close>

definition time_Second :: Duration where "time_Second = 1000000000"
definition time_Minute :: Duration where "time_Minute = 60 * time_Second"
definition time_Hour :: Duration where "time_Hour = 60 * time_Minute"

text \<open>
  \<open>jwt.NumericDate\<close>: \<open>jwt.NewNumericDate\<close> truncates the time to \<open>jwt.TimePrecision\<close>, one
  second, and that many seconds since the epoch are written into the token.
\<close>

type_synonym NumericDate = int

definition NewNumericDate :: "Time \<Rightarrow> NumericDate" where
  "NewNumericDate t = t div time_Second"

definition NumericDate_Time :: "NumericDate \<Rightarrow> Time" where
  "NumericDate_Time d = d * time_Second"

subsection \<open>Claims and their JSON form\<close>

record RegisteredClaims =
  Issuer :: string
  Subject :: string
  Audience :: "string list"
  ExpiresAt :: "NumericDate option"
  NotBefore :: "NumericDate option"
  IssuedAt :: "NumericDate option"
  ID :: string

text \<open>
  A member of a claims object that only one of the two decoders of the service reads: absent
  (also \<open>null\<close>), a JSON string, or a JSON value of another type.
\<close>

datatype Member = NoMember | StringMember string | OtherMember

text \<open>
  The members of a token's claims object that the two decoders of the service read. The
  seven registered members are each absent (\<open>None\<close>, also for \<open>null\<close>) or of the JSON type
  its Go field takes. Members outside this list are ignored by \<open>encoding/json\<close> and are
  not represented.
\<close>

record Payload =
  user_id :: Member
  role :: Member
  iss :: "string option"
  sub :: "string option"
  aud :: "string list option"
  exp :: "NumericDate option"
  nbf :: "NumericDate option"
  iat :: "NumericDate option"
  jti :: "string option"

text \<open>A field tagged \<open>omitempty\<close> is left out when empty.\<close>

definition omitempty :: "'a list \<Rightarrow> 'a list option" where
  "omitempty v = (if v = [] then None else Some v)"

definition present :: "'a list option \<Rightarrow> 'a list" where
  "present m = (case m of None \<Rightarrow> [] | Some v \<Rightarrow> v)"

definition marshal_RegisteredClaims :: "'a RegisteredClaims_scheme \<Rightarrow> Payload" where
  "marshal_RegisteredClaims c =
     \<lparr>user_id = NoMember, role = NoMember, iss = omitempty (Issuer c), sub = omitempty (Subject c),
      aud = omitempty (Audience c), exp = ExpiresAt c, nbf = NotBefore c, iat = IssuedAt c,
      jti = omitempty (RegisteredClaims.ID c)\<rparr>"

definition unmarshal_RegisteredClaims :: "Payload \<Rightarrow> RegisteredClaims" where
  "unmarshal_RegisteredClaims p =
     \<lparr>Issuer = present (iss p), Subject = present (sub p), Audience = present (aud p),
      ExpiresAt = exp p, NotBefore = nbf p, IssuedAt = iat p, RegisteredClaims.ID = present (jti p)\<rparr>"

subsection \<open>Token strings\<close>

text \<open>
  A token string is represented by what the first stage of the parser makes of it. Either
  it is refused there (\<open>NotCompact\<close>, with the string): it does not consist of three
  segments, or its header is not the base64url form of a JSON object, or its claims segment
  is not the base64url form of a JSON object whose registered members have the types of
  their Go fields. Or it is not (\<open>Compact\<close>): then it is given by the header's \<open>alg\<close> if
  that is a string, by the claims object, and by the signature segment, decoded (\<open>Inr\<close>)
  or, when it is not base64url, as it stands (\<open>Inl\<close>).
\<close>

datatype TokenString = NotCompact string | Compact "string option" Payload "string + bytes"

subsection \<open>What stays uninterpreted\<close>

text \<open>
  The errors the libraries return, by kind: those of \<open>uuid.Parse\<close> with what their message
  quotes, those of the token parser with the stage that refused the token and the token.
  Their messages are the libraries' business (they wrap one another and quote the input);
  the model leaves the text to \<open>ErrorText\<close>.
\<close>

datatype ClaimError = TokenExpired | TokenNotValidYet

datatype TokenErrorKind =
    Malformed
  | ClaimsUndecodable
  | Unverifiable
  | SignatureUndecodable
  | SignatureInvalid
  | InvalidClaims "ClaimError list"

datatype LibraryError =
    InvalidUUIDLength nat
  | InvalidURNPrefix string
  | InvalidUUIDFormat
  | TokenError TokenErrorKind TokenString

text \<open>
  Besides the error messages: the three hash functions, and the text a signature covers
  (the base64url forms of the JSON header, given by its \<open>alg\<close>, and of the JSON claims,
  joined by a dot).
\<close>

record Extern =
  SHA256 :: "bytes \<Rightarrow> bytes"
  SHA384 :: "bytes \<Rightarrow> bytes"
  SHA512 :: "bytes \<Rightarrow> bytes"
  SigningString :: "string option \<Rightarrow> Payload \<Rightarrow> bytes"
  ErrorText :: "LibraryError \<Rightarrow> string"

subsection \<open>\<open>uuid.Parse\<close>\<close>

definition xvalues :: "char \<Rightarrow> 8 word" where
  "xvalues c =
     (let n = of_char c :: nat in
        if 48 \<le> n \<and> n \<le> 57 then of_nat (n - 48)
        else if 65 \<le> n \<and> n \<le> 70 then of_nat (n - 55)
        else if 97 \<le> n \<and> n \<le> 102 then of_nat (n - 87)
        else 255)"

definition xtob :: "char \<Rightarrow> char \<Rightarrow> 8 word \<times> bool" where
  "xtob x1 x2 =
     (let b1 = xvalues x1; b2 = xvalues x2
      in (push_bit 4 b1 OR b2, b1 \<noteq> 255 \<and> b2 \<noteq> 255))"

text \<open>The loop over the offsets of the hexadecimal pairs; \<open>None\<close> at the first bad pair.\<close>

fun decode_pairs :: "string \<Rightarrow> nat list \<Rightarrow> bytes option" where
  "decode_pairs s [] = Some []"
| "decode_pairs s (x # xs) =
     (case xtob (s ! x) (s ! (x + 1)) of
        (v, ok) \<Rightarrow> if \<not> ok then None else map_option (\<lambda>vs. v # vs) (decode_pairs s xs))"

text \<open>
  The tail of \<open>uuid.Parse\<close>, for a string of at least 36 characters: four hyphens and
  sixteen pairs at fixed offsets; what follows the first 36 characters is not looked at.
\<close>

definition parse36 :: "Extern \<Rightarrow> string \<Rightarrow> error + UUID" where
  "parse36 L s =
     (if s ! 8 \<noteq> CHR ''-'' \<or> s ! 13 \<noteq> CHR ''-'' \<or> s ! 18 \<noteq> CHR ''-'' \<or> s ! 23 \<noteq> CHR ''-''
      then Inl (ErrorText L InvalidUUIDFormat)
      else
        (case decode_pairs s [0, 2, 4, 6, 9, 11, 14, 16, 19, 21, 24, 26, 28, 30, 32, 34] of
           None \<Rightarrow> Inl (ErrorText L InvalidUUIDFormat)
         | Some vs \<Rightarrow> Inr (UUID_of vs)))"

definition ascii_lower :: "char \<Rightarrow> char" where
  "ascii_lower c =
     (let n = of_char c :: nat in if 65 \<le> n \<and> n \<le> 90 then char_of (n + 32) else c)"

text \<open>\<open>strings.EqualFold\<close> against a lower-case ASCII string.\<close>

definition EqualFold :: "string \<Rightarrow> string \<Rightarrow> bool" where
  "EqualFold s t = (map ascii_lower s = map ascii_lower t)"

text \<open>
  \<open>uuid.Parse\<close>, by the length of the string: the plain form of 36 characters; the same
  after a prefix \<open>urn:uuid:\<close>; the same between two enclosing characters, which are skipped
  and not inspected; 32 hexadecimal digits.
\<close>

definition uuid_Parse :: "Extern \<Rightarrow> string \<Rightarrow> error + UUID" where
  "uuid_Parse L s =
     (if length s = 36 then parse36 L s
      else if length s = 36 + 9 then
        (if \<not> EqualFold (take 9 s) ''urn:uuid:''
         then Inl (ErrorText L (InvalidURNPrefix (take 9 s)))
         else parse36 L (drop 9 s))
      else if length s = 36 + 2 then parse36 L (drop 1 s)
      else if length s = 32 then
        (case decode_pairs s [0, 2, 4, 6, 8, 10, 12, 14, 16, 18, 20, 22, 24, 26, 28, 30] of
           None \<Rightarrow> Inl (ErrorText L InvalidUUIDFormat)
         | Some vs \<Rightarrow> Inr (UUID_of vs))
      else Inl (ErrorText L (InvalidUUIDLength (length s))))"

subsection \<open>Signing: HMAC as in \<open>crypto/hmac\<close>\<close>

text \<open>
  \<open>hmac.New\<close>: a key longer than the block is hashed first; the key is copied into two
  zeroed blocks, which are then xor-ed with 0x36 and 0x5c.
\<close>

definition hmac_pads :: "(bytes \<Rightarrow> bytes) \<Rightarrow> nat \<Rightarrow> bytes \<Rightarrow> bytes \<times> bytes" where
  "hmac_pads h blocksize key =
     (let key' = (if length key > blocksize then h key else key);
          block = take blocksize (key' @ replicate blocksize 0)
      in (map (\<lambda>b. b XOR 0x36) block, map (\<lambda>b. b XOR 0x5c) block))"

definition hmac_Sum :: "(bytes \<Rightarrow> bytes) \<Rightarrow> nat \<Rightarrow> bytes \<Rightarrow> bytes \<Rightarrow> bytes" where
  "hmac_Sum h blocksize key msg =
     (case hmac_pads h blocksize key of (ipad, opad) \<Rightarrow> h (opad @ h (ipad @ msg)))"

text \<open>The three HMAC signing methods of the library, with their hash and its block size.\<close>

datatype HMACMethod = HS256 | HS384 | HS512

primrec Alg :: "HMACMethod \<Rightarrow> string" where
  "Alg HS256 = ''HS256''"
| "Alg HS384 = ''HS384''"
| "Alg HS512 = ''HS512''"

primrec HMAC_Sign :: "Extern \<Rightarrow> HMACMethod \<Rightarrow> bytes \<Rightarrow> bytes \<Rightarrow> bytes" where
  "HMAC_Sign L HS256 signingString key = hmac_Sum (SHA256 L) 64 key signingString"
| "HMAC_Sign L HS384 signingString key = hmac_Sum (SHA384 L) 128 key signingString"
| "HMAC_Sign L HS512 signingString key = hmac_Sum (SHA512 L) 128 key signingString"

text \<open>
  \<open>jwt.GetSigningMethod\<close>: the methods the library registers. Those that are not HMAC
  exist but take no key of type \<open>[]byte\<close>.
\<close>

datatype SigningMethod = HMAC HMACMethod | NonHMAC string

definition nonHMACMethods :: "string list" where
  "nonHMACMethods =
     [''RS256'', ''RS384'', ''RS512'', ''PS256'', ''PS384'', ''PS512'',
      ''ES256'', ''ES384'', ''ES512'', ''EdDSA'', ''none'']"

definition GetSigningMethod :: "string \<Rightarrow> SigningMethod option" where
  "GetSigningMethod alg =
     (if alg = ''HS256'' then Some (HMAC HS256)
      else if alg = ''HS384'' then Some (HMAC HS384)
      else if alg = ''HS512'' then Some (HMAC HS512)
      else if alg \<in> set nonHMACMethods then Some (NonHMAC alg)
      else None)"

text \<open>\<open>SigningMethod.Verify\<close> with a key of type \<open>[]byte\<close>: whether it returns no error.\<close>

primrec Verify :: "Extern \<Rightarrow> SigningMethod \<Rightarrow> bytes \<Rightarrow> bytes \<Rightarrow> bytes \<Rightarrow> bool" where
  "Verify L (HMAC m) signingString sig key = (sig = HMAC_Sign L m signingString key)"
| "Verify L (NonHMAC a) signingString sig key = False"

subsection \<open>Tokens\<close>

text \<open>The parsed token, as far as the service looks at it.\<close>

record 'c Token =
  Method :: SigningMethod
  Claims :: 'c
  Signature :: bytes
  Valid :: bool

text \<open>
  \<open>Token.SignedString\<close> of \<open>jwt.NewWithClaims(method, claims)\<close> for an HMAC method, with the
  claims marshalled; with a key of type \<open>[]byte\<close> it returns no error.
\<close>

definition SignedString :: "Extern \<Rightarrow> HMACMethod \<Rightarrow> Payload \<Rightarrow> bytes \<Rightarrow> error + TokenString" where
  "SignedString L m payload key =
     Inr (Compact (Some (Alg m)) payload
            (Inr (HMAC_Sign L m (SigningString L (Some (Alg m)) payload) key)))"

text \<open>
  The default \<open>jwt.Validator\<close> collects its findings: an expiry, when present, must lie
  after \<open>now\<close>; a not-before, when present, must not; the issued-at is not verified (an
  option the service leaves off).
\<close>

definition Validate :: "Time \<Rightarrow> 'a RegisteredClaims_scheme \<Rightarrow> ClaimError list" where
  "Validate now c =
     (if (case ExpiresAt c of None \<Rightarrow> False | Some e \<Rightarrow> \<not> now < NumericDate_Time e)
      then [TokenExpired] else []) @
     (if (case NotBefore c of None \<Rightarrow> False | Some n \<Rightarrow> now < NumericDate_Time n)
      then [TokenNotValidYet] else [])"

text \<open>
  \<open>jwt.ParseWithClaims\<close> with a key function that returns \<open>key\<close>; \<open>decode\<close> is the JSON
  decoding into the claims value handed in (\<open>None\<close> when it returns an error), and \<open>now\<close>
  the clock reading of the validator. The claims are decoded, the signing method is looked
  up, the signature segment is decoded, the signature is verified and the claims are
  validated, in this order.
\<close>

definition ParseWithClaims ::
  "Extern \<Rightarrow> Time \<Rightarrow> TokenString \<Rightarrow> (Payload \<Rightarrow> 'a RegisteredClaims_scheme option) \<Rightarrow> bytes
     \<Rightarrow> error + ('a RegisteredClaims_scheme) Token" where
  "ParseWithClaims L now tokenString decode key =
     (case tokenString of
        NotCompact s \<Rightarrow> Inl (ErrorText L (TokenError Malformed tokenString))
      | Compact alg payload segment \<Rightarrow>
          (case decode payload of
             None \<Rightarrow> Inl (ErrorText L (TokenError ClaimsUndecodable tokenString))
           | Some claims \<Rightarrow>
               (case (case alg of None \<Rightarrow> None | Some a \<Rightarrow> GetSigningMethod a) of
                  None \<Rightarrow> Inl (ErrorText L (TokenError Unverifiable tokenString))
                | Some method \<Rightarrow>
                    (case segment of
                       Inl raw \<Rightarrow> Inl (ErrorText L (TokenError SignatureUndecodable tokenString))
                     | Inr sig \<Rightarrow>
                         (if \<not> Verify L method (SigningString L alg payload) sig key
                          then Inl (ErrorText L (TokenError SignatureInvalid tokenString))
                          else if Validate now claims \<noteq> []
                          then Inl (ErrorText L
                                 (TokenError (InvalidClaims (Validate now claims)) tokenString))
                          else Inr \<lparr>Method = method, Claims = claims, Signature = sig,
                                    Valid = True\<rparr>)))))"

section \<open>Infrastructure: the token service (infrastructure/jwt)\<close>

record Service =
  secretKey :: bytes
  accessTokenTTL :: Duration
  refreshTokenTTL :: Duration

record Claims = RegisteredClaims +
  UserID :: UUID
  Role :: UserRole

definition marshal_Claims :: "Claims \<Rightarrow> Payload" where
  "marshal_Claims c =
     (marshal_RegisteredClaims c)
       \<lparr>user_id := StringMember (UUID_String (Claims.UserID c)),
        role := StringMember (Claims.Role c)\<rparr>"

text \<open>
  Decoding into \<open>Claims\<close>: \<open>user_id\<close> must be a string, which goes through
  \<open>UUID.UnmarshalText\<close> and is parsed as \<open>uuid.Parse\<close> does, and \<open>role\<close> must be a string; an
  absent member leaves the zero value.
\<close>

definition unmarshal_Claims :: "Extern \<Rightarrow> Payload \<Rightarrow> Claims option" where
  "unmarshal_Claims L p =
     (case (case user_id p of
              NoMember \<Rightarrow> Some uuid_Nil
            | StringMember s \<Rightarrow> (case uuid_Parse L s of Inl err \<Rightarrow> None | Inr u \<Rightarrow> Some u)
            | OtherMember \<Rightarrow> None) of
        None \<Rightarrow> None
      | Some u \<Rightarrow>
          (case (case role p of
                   NoMember \<Rightarrow> Some []
                 | StringMember r \<Rightarrow> Some r
                 | OtherMember \<Rightarrow> None) of
             None \<Rightarrow> None
           | Some r \<Rightarrow>
               Some \<lparr>Issuer = present (iss p), Subject = present (sub p),
                     Audience = present (aud p), ExpiresAt = exp p, NotBefore = nbf p,
                     IssuedAt = iat p, RegisteredClaims.ID = present (jti p),
                     UserID = u, Role = r\<rparr>))"

definition NewService :: "string \<Rightarrow> Service" where
  "NewService secretKey' =
     \<lparr>secretKey = map of_char secretKey', accessTokenTTL = 15 * time_Minute,
      refreshTokenTTL = 7 * 24 * time_Hour\<rparr>"

text \<open>\<open>now1\<close> and \<open>now2\<close> are the clock readings for \<open>ExpiresAt\<close> and for \<open>IssuedAt\<close>.\<close>

definition GenerateAccessToken ::
  "Extern \<Rightarrow> Service \<Rightarrow> Time \<Rightarrow> Time \<Rightarrow> UUID \<Rightarrow> UserRole \<Rightarrow> error + TokenString" where
  "GenerateAccessToken L s now1 now2 userID role' =
     (let claims =
            \<lparr>Issuer = [], Subject = UUID_String userID, Audience = [],
             ExpiresAt = Some (NewNumericDate (now1 + accessTokenTTL s)), NotBefore = None,
             IssuedAt = Some (NewNumericDate now2), RegisteredClaims.ID = [],
             UserID = userID, Role = role'\<rparr>
      in SignedString L HS256 (marshal_Claims claims) (secretKey s))"

definition GenerateRefreshToken ::
  "Extern \<Rightarrow> Service \<Rightarrow> Time \<Rightarrow> Time \<Rightarrow> UUID \<Rightarrow> error + TokenString" where
  "GenerateRefreshToken L s now1 now2 userID =
     (let claims =
            \<lparr>Issuer = [], Subject = UUID_String userID, Audience = [],
             ExpiresAt = Some (NewNumericDate (now1 + refreshTokenTTL s)), NotBefore = None,
             IssuedAt = Some (NewNumericDate now2), RegisteredClaims.ID = []\<rparr>
      in SignedString L HS256 (marshal_RegisteredClaims claims) (secretKey s))"

definition ValidateAccessToken :: "Extern \<Rightarrow> Service \<Rightarrow> Time \<Rightarrow> TokenString \<Rightarrow> error + Claims" where
  "ValidateAccessToken L s now tokenString =
     (case ParseWithClaims L now tokenString (unmarshal_Claims L) (secretKey s) of
        Inl err \<Rightarrow> Inl err
      | Inr token \<Rightarrow>
          if Valid token then Inr (Token.Claims token) else Inl ''invalid token'')"

definition ValidateRefreshToken :: "Extern \<Rightarrow> Service \<Rightarrow> Time \<Rightarrow> TokenString \<Rightarrow> error + UUID" where
  "ValidateRefreshToken L s now tokenString =
     (case ParseWithClaims L now tokenString (\<lambda>p. Some (unmarshal_RegisteredClaims p)) (secretKey s) of
        Inl err \<Rightarrow> Inl err
      | Inr token \<Rightarrow>
          if Valid token then
            (case uuid_Parse L (Subject (Token.Claims token)) of
               Inl err \<Rightarrow> Inl err
             | Inr userID \<Rightarrow> Inr userID)
          else Inl ''invalid refresh token'')"

section \<open>Application: the authentication service (application/auth_service.go)\<close>

record 'db AuthService =
  userRepo :: "'db UserRepository"
  jwtService :: Service

record LoginRequest =
  Email :: string
  Password :: string

record AuthResponse =
  AccessToken :: TokenString
  RefreshToken :: TokenString
  User :: User

text \<open>
  \<open>AuthService.Login\<close>. \<open>compare\<close> is \<open>bcrypt.CompareHashAndPassword\<close>; \<open>now1\<close>, \<open>now2\<close> are
  the clock readings of \<open>GenerateAccessToken\<close> and \<open>now3\<close>, \<open>now4\<close> those of
  \<open>GenerateRefreshToken\<close>.
\<close>

definition Login ::
  "(string \<Rightarrow> string \<Rightarrow> error option) \<Rightarrow> Extern \<Rightarrow> 'db AuthService \<Rightarrow> Time \<Rightarrow> Time \<Rightarrow> Time \<Rightarrow> Time
     \<Rightarrow> LoginRequest \<Rightarrow> 'db \<Rightarrow> error + AuthResponse" where
  "Login compare L s now1 now2 now3 now4 req db =
     (case UserRepository.FindByEmail (AuthService.userRepo s) (LoginRequest.Email req) db of
        Inl err \<Rightarrow> Inl ''invalid credentials''
      | Inr user \<Rightarrow>
          (if \<not> IsActive user then Inl ''account is inactive''
           else if \<not> ValidatePassword compare user (Password req) then Inl ''invalid credentials''
           else
             (case GenerateAccessToken L (jwtService s) now1 now2 (User.ID user) (User.Role user) of
                Inl err \<Rightarrow> Inl err
              | Inr accessToken \<Rightarrow>
                  (case GenerateRefreshToken L (jwtService s) now3 now4 (User.ID user) of
                     Inl err \<Rightarrow> Inl err
                   | Inr refreshToken \<Rightarrow>
                       Inr \<lparr>AccessToken = accessToken, RefreshToken = refreshToken,
                            User = user\<rparr>))))"

text \<open>
  \<open>AuthService.RefreshToken\<close>. \<open>now0\<close> is the clock reading of the validation, the other
  four are those of the two generations.
\<close>

definition RefreshToken ::
  "Extern \<Rightarrow> 'db AuthService \<Rightarrow> Time \<Rightarrow> Time \<Rightarrow> Time \<Rightarrow> Time \<Rightarrow> Time \<Rightarrow> TokenString \<Rightarrow> 'db
     \<Rightarrow> error + AuthResponse" where
  "RefreshToken L s now0 now1 now2 now3 now4 refreshToken db =
     (case ValidateRefreshToken L (jwtService s) now0 refreshToken of
        Inl err \<Rightarrow> Inl ''invalid refresh token''
      | Inr userID \<Rightarrow>
          (case UserRepository.FindByID (AuthService.userRepo s) userID db of
             Inl err \<Rightarrow> Inl ''user not found''
           | Inr user \<Rightarrow>
               (case GenerateAccessToken L (jwtService s) now1 now2 (User.ID user) (User.Role user) of
                  Inl err \<Rightarrow> Inl err
                | Inr accessToken \<Rightarrow>
                    (case GenerateRefreshToken L (jwtService s) now3 now4 (User.ID user) of
                       Inl err \<Rightarrow> Inl err
                     | Inr newRefreshToken \<Rightarrow>
                         Inr \<lparr>AccessToken = accessToken, RefreshToken = newRefreshToken,
                              User = user\<rparr>))))"

section \<open>Test doubles\<close>

text \<open>
  Repositories in the manner of the mocks of the repository's tests: each finder returns a
  fixed answer and \<open>Save\<close> a fixed error; the store records the orders handed to \<open>Save\<close>.
\<close>

definition mockOrderRepo :: "error option \<Rightarrow> (error + Order) \<Rightarrow> (Order list) OrderRepository" where
  "mockOrderRepo saveErr found =
     \<lparr>OrderRepository.Save = (\<lambda>order' db. (saveErr, db @ [order'])),
      OrderRepository.FindByID = (\<lambda>id' db. found),
      OrderRepository.FindByUserID = (\<lambda>id' db. Inr db)\<rparr>"

definition mockUserRepo :: "(error + User) \<Rightarrow> (Order list) UserRepository" where
  "mockUserRepo found =
     \<lparr>UserRepository.Save = (\<lambda>user db. (None, db)),
      UserRepository.FindByID = (\<lambda>id' db. found),
      UserRepository.FindByEmail = (\<lambda>email db. found)\<rparr>"

definition mockOrderService :: "error option \<Rightarrow> (error + Order) \<Rightarrow> (error + User) \<Rightarrow> (Order list) OrderService" where
  "mockOrderService saveErr foundOrder foundUser =
     \<lparr>orderRepo = mockOrderRepo saveErr foundOrder, userRepo = mockUserRepo foundUser\<rparr>"

definition testUser :: "UserRole \<Rightarrow> User" where
  "testUser r = \<lparr>User.ID = UUID_of [1], Email = ''test@example.com'', PasswordHash = ''$2a$10$hash'',
                  Role = r, IsActive = True, CreatedAt = 1000, UpdatedAt = 1000\<rparr>"

definition testOrder :: Order where
  "testOrder = \<lparr>Order.ID = UUID_of [7], UserID = UUID_of [1], ItemID = ''intel-basic'', Quantity = 0,
                 Status = OrderStatusConfirmed, CreatedAt = zeroTime, UpdatedAt = zeroTime,
                 User = zeroUser\<rparr>"

text \<open>
  An authentication service over the same user repository, and a stand-in for
  \<open>bcrypt.CompareHashAndPassword\<close> that accepts one password for one hash.
\<close>

definition mockAuthService :: "(error + User) \<Rightarrow> string \<Rightarrow> (Order list) AuthService" where
  "mockAuthService found secret = \<lparr>userRepo = mockUserRepo found, jwtService = NewService secret\<rparr>"

definition testCompare :: "string \<Rightarrow> string \<Rightarrow> error option" where
  "testCompare hash password =
     (if hash = ''$2a$10$hash'' \<and> password = ''password123'' then None
      else Some ''hashedPassword is not the hash of the given password'')"

section \<open>The UUID type\<close>

lemma Abs_Rep_UUID [code abstype]: "Abs_UUID (Rep_UUID u) = u"
  by (rule Rep_UUID_inverse)

lemma Rep_uuid_Nil [code abstract]: "Rep_UUID uuid_Nil = replicate 16 0"
  by (simp add: uuid_Nil_def Abs_UUID_inverse)

lemma Rep_UUID_of [code abstract]: "Rep_UUID (UUID_of bs) = take 16 (bs @ replicate 16 0)"
  by (simp add: UUID_of_def Abs_UUID_inverse)

lemma length_Rep_UUID: "length (Rep_UUID u) = 16"
  using Rep_UUID [of u] by simp

lemma length_UUID_String: "length (UUID_String u) = 36"
  by (simp add: UUID_String_def hex_Encode_def Let_def length_concat comp_def sum_list_triv
      length_Rep_UUID)

lemma UUID_String_not_empty: "UUID_String u \<noteq> []"
  using length_UUID_String [of u] by auto

lemma UUID_of_inject: "length xs = 16 \<Longrightarrow> length ys = 16 \<Longrightarrow> (UUID_of xs = UUID_of ys) = (xs = ys)"
  by (simp add: UUID_of_def Abs_UUID_inject)

section \<open>The role hierarchy\<close>

lemma role_names_distinct:
  "RoleViewer \<noteq> RoleAnalyst" "RoleViewer \<noteq> RoleAdmin" "RoleAnalyst \<noteq> RoleAdmin"
  by (simp_all add: RoleViewer_def RoleAnalyst_def RoleAdmin_def)

lemma index_roleHierarchy:
  "index_int roleHierarchy r =
     (if r = RoleAdmin then 3 else if r = RoleAnalyst then 2 else if r = RoleViewer then 1 else 0)"
  by (simp add: index_int_def roleHierarchy_def)

lemma index_role_of: "index_int roleHierarchy (role_of a) = int (spec_rank a)"
  by (cases a) (simp_all add: index_roleHierarchy role_names_distinct)

text \<open>
  C5. For a user whose role is one of Viewer, Analyst, Admin and a required role among the
  same three, \<open>HasPermission\<close> is true exactly when the rank of the user's role is at least
  the rank of the required role, with Admin = 3, Analyst = 2, Viewer = 1.
\<close>

theorem HasPermission_iff_rank:
  "User.Role u = role_of a \<Longrightarrow> HasPermission u (role_of b) = (spec_rank b \<le> spec_rank a)"
  by (simp add: HasPermission_def index_role_of)

theorem HasPermission_iff_rank_witness:
  "HasPermission (testUser RoleAnalyst) RoleViewer \<and>
   HasPermission (testUser RoleAnalyst) RoleAnalyst \<and>
   \<not> HasPermission (testUser RoleAnalyst) RoleAdmin \<and>
   HasPermission (testUser RoleAdmin) RoleViewer \<and>
   HasPermission (testUser RoleAdmin) RoleAnalyst \<and>
   HasPermission (testUser RoleAdmin) RoleAdmin \<and>
   HasPermission (testUser RoleViewer) RoleViewer \<and>
   \<not> HasPermission (testUser RoleViewer) RoleAnalyst \<and>
   \<not> HasPermission (testUser RoleViewer) RoleAdmin"
  using HasPermission_iff_rank [of "testUser RoleAnalyst" Analyst Viewer]
    HasPermission_iff_rank [of "testUser RoleAnalyst" Analyst Analyst]
    HasPermission_iff_rank [of "testUser RoleAnalyst" Analyst Admin]
    HasPermission_iff_rank [of "testUser RoleAdmin" Admin Viewer]
    HasPermission_iff_rank [of "testUser RoleAdmin" Admin Analyst]
    HasPermission_iff_rank [of "testUser RoleAdmin" Admin Admin]
    HasPermission_iff_rank [of "testUser RoleViewer" Viewer Viewer]
    HasPermission_iff_rank [of "testUser RoleViewer" Viewer Analyst]
    HasPermission_iff_rank [of "testUser RoleViewer" Viewer Admin]
  by (simp add: testUser_def)

section \<open>Order transitions\<close>

lemma Status_call: "Order.Status (Order (call c now oa)) = target c"
  by (cases c) (simp_all add: Confirm_def Complete_def Cancel_def)

lemma UpdatedAt_call: "Order.UpdatedAt (Order (call c now oa)) = now"
  by (cases c) (simp_all add: Confirm_def Complete_def Cancel_def)

lemma history_targets: "history cs oa = Order.Status (Order oa) # map (\<lambda>c. target (fst c)) cs"
  by (induction cs arbitrary: oa) (simp_all add: Status_call)

lemma run_snoc: "run (cs @ [c]) oa = call (fst c) (snd c) (run cs oa)"
  by (induction cs arbitrary: oa) simp_all

lemma status_names_distinct:
  "OrderStatusPending \<noteq> OrderStatusConfirmed" "OrderStatusPending \<noteq> OrderStatusCompleted"
  "OrderStatusPending \<noteq> OrderStatusCancelled" "OrderStatusConfirmed \<noteq> OrderStatusCompleted"
  "OrderStatusConfirmed \<noteq> OrderStatusCancelled" "OrderStatusCompleted \<noteq> OrderStatusCancelled"
  by (simp_all add: OrderStatusPending_def OrderStatusConfirmed_def OrderStatusCompleted_def
      OrderStatusCancelled_def)

text \<open>
  C1, as the specification states it, fails: the three calls are unconditional setters, so
  from a fresh Pending order \<open>Cancel\<close> followed by \<open>Complete\<close> moves the order from
  Cancelled to Completed, which is not an edge of the transition graph.
\<close>

theorem transitions_leave_graph:
  "history [(CallCancel, 1), (CallComplete, 2)] (NewOrder uuid_Nil 0 0 uuid_Nil ''intel-basic'' 1) =
     [OrderStatusPending, OrderStatusCancelled, OrderStatusCompleted] \<and>
   \<not> edge OrderStatusCancelled OrderStatusCompleted \<and>
   \<not> within_graph
       (history [(CallCancel, 1), (CallComplete, 2)] (NewOrder uuid_Nil 0 0 uuid_Nil ''intel-basic'' 1))"
  by (simp add: history_targets NewOrder_def edge_def status_names_distinct
      status_names_distinct [symmetric])

text \<open>
  C1, amended. \<open>Confirm\<close>, \<open>Complete\<close> and \<open>Cancel\<close> set the status to Confirmed, Completed
  and Cancelled whatever the current status, set the update timestamp to the clock reading
  of the call and leave every other field as it was. Hence the status history of a fresh
  order is Pending followed by the targets of the calls in their order (it stays within the
  transition graph only as far as the callers' sequence does), and after every call the
  update timestamp is the clock reading of that call.
\<close>

theorem transitions_unconditional:
  "Order.Status (Order (call c now oa)) = target c \<and>
   Order.UpdatedAt (Order (call c now oa)) = now \<and>
   Order.ID (Order (call c now oa)) = Order.ID (Order oa) \<and>
   Order.UserID (Order (call c now oa)) = Order.UserID (Order oa) \<and>
   Order.ItemID (Order (call c now oa)) = Order.ItemID (Order oa) \<and>
   Order.Quantity (Order (call c now oa)) = Order.Quantity (Order oa) \<and>
   Order.CreatedAt (Order (call c now oa)) = Order.CreatedAt (Order oa) \<and>
   Order.User (Order (call c now oa)) = Order.User (Order oa) \<and>
   history cs (NewOrder newID now1 now2 userID itemID quantity) =
     OrderStatusPending # map (\<lambda>c. target (fst c)) cs \<and>
   Order.UpdatedAt (Order (run (cs @ [(c, now)]) oa)) = now"
  by (cases c) (simp_all add: Confirm_def Complete_def Cancel_def history_targets run_snoc NewOrder_def)

section \<open>The order service\<close>

lemma index_validItems:
  "index_bool validItems i = (i \<in> {''intel-basic'', ''intel-premium'', ''intel-enterprise''})"
  by (simp add: index_bool_def validItems_def)

lemma UUID_of_eq_iff:
  "(UUID_of xs = UUID_of ys) = (take 16 (xs @ replicate 16 0) = take 16 (ys @ replicate 16 0))"
  by (simp add: UUID_of_def Abs_UUID_inject)

lemma mock_finders:
  "UserRepository.FindByID (OrderService.userRepo (mockOrderService saveErr foundOrder foundUser)) i db = foundUser"
  "OrderRepository.FindByID (orderRepo (mockOrderService saveErr foundOrder foundUser)) i db = foundOrder"
  "OrderRepository.Save (orderRepo (mockOrderService saveErr foundOrder foundUser)) x db = (saveErr, db @ [x])"
  by (simp_all add: mockOrderService_def mockOrderRepo_def mockUserRepo_def)

text \<open>
  C10, as the specification states it, fails on its last part: \<open>CreateOrder\<close> does not
  reject every user of an unknown role with "insufficient permissions". The allow-list
  check on the item comes before the user is looked up, so with an item outside the list a
  user of role guest, whom the repository would load, is rejected with "invalid item_id".
\<close>

theorem unknown_role_invalid_item:
  "User.Role (testUser ''guest'') \<notin> {RoleViewer, RoleAnalyst, RoleAdmin} \<and>
   UserRepository.FindByID
     (OrderService.userRepo (mockOrderService None (Inl ''not found'') (Inr (testUser ''guest''))))
     (UUID_of [1]) [] = Inr (testUser ''guest'') \<and>
   CreateOrder (mockOrderService None (Inl ''not found'') (Inr (testUser ''guest''))) (UUID_of [9]) 1 2 3
     (UUID_of [1]) \<lparr>ItemID = ''bogus-item'', Quantity = 1\<rparr> [] = (Inl ''invalid item_id'', [])"
  by (simp add: CreateOrder_def mock_finders index_validItems testUser_def RoleViewer_def
      RoleAnalyst_def RoleAdmin_def)

text \<open>
  C10, amended. A user whose role is none of viewer, analyst, admin has rank 0 in the
  hierarchy: the user fails \<open>HasPermission\<close> for each of the three known roles and
  satisfies it for every required role outside them. Consequently \<open>CreateOrder\<close> never
  creates an order for such a user once the repository loads the user: the call returns an
  error and leaves the store alone, and the error is "insufficient permissions" whenever
  the item is on the allow-list, whose check precedes the user lookup.
\<close>

theorem unknown_role_rank_zero:
  assumes "User.Role u \<notin> {RoleViewer, RoleAnalyst, RoleAdmin}"
  shows "index_int roleHierarchy (User.Role u) = 0 \<and>
    (\<forall>r. r \<in> {RoleViewer, RoleAnalyst, RoleAdmin} \<longrightarrow> \<not> HasPermission u r) \<and>
    (\<forall>r. r \<notin> {RoleViewer, RoleAnalyst, RoleAdmin} \<longrightarrow> HasPermission u r) \<and>
    (UserRepository.FindByID (OrderService.userRepo s) userID db = Inr u \<longrightarrow>
       isl (fst (CreateOrder s newID now1 now2 now3 userID req db)) \<and>
       snd (CreateOrder s newID now1 now2 now3 userID req db) = db \<and>
       (index_bool validItems (CreateOrderRequest.ItemID req) \<longrightarrow>
          CreateOrder s newID now1 now2 now3 userID req db = (Inl ''insufficient permissions'', db)))"
proof -
  have zero: "index_int roleHierarchy (User.Role u) = 0"
    using assms by (simp add: index_roleHierarchy)
  have hp: "HasPermission u r = (index_int roleHierarchy r \<le> 0)" for r
    by (simp add: HasPermission_def zero)
  have known: "\<forall>r. r \<in> {RoleViewer, RoleAnalyst, RoleAdmin} \<longrightarrow> \<not> HasPermission u r"
    by (simp add: hp index_roleHierarchy role_names_distinct role_names_distinct [symmetric])
  have unknown: "\<forall>r. r \<notin> {RoleViewer, RoleAnalyst, RoleAdmin} \<longrightarrow> HasPermission u r"
    by (simp add: hp index_roleHierarchy)
  have viewer: "\<not> HasPermission u RoleViewer"
    using known by simp
  have create:
    "UserRepository.FindByID (OrderService.userRepo s) userID db = Inr u \<longrightarrow>
     isl (fst (CreateOrder s newID now1 now2 now3 userID req db)) \<and>
     snd (CreateOrder s newID now1 now2 now3 userID req db) = db \<and>
     (index_bool validItems (CreateOrderRequest.ItemID req) \<longrightarrow>
        CreateOrder s newID now1 now2 now3 userID req db = (Inl ''insufficient permissions'', db))"
    by (simp add: CreateOrder_def viewer)
  show ?thesis
    by (intro conjI zero known unknown create)
qed

theorem unknown_role_rank_zero_witness:
  "index_int roleHierarchy (User.Role (testUser ''guest'')) = 0 \<and>
   \<not> HasPermission (testUser ''guest'') RoleViewer \<and>
   \<not> HasPermission (testUser ''guest'') RoleAnalyst \<and>
   \<not> HasPermission (testUser ''guest'') RoleAdmin \<and>
   HasPermission (testUser ''guest'') ''superuser'' \<and>
   CreateOrder (mockOrderService None (Inl ''not found'') (Inr (testUser ''guest''))) (UUID_of [9]) 1 2 3
     (UUID_of [1]) \<lparr>ItemID = ''intel-basic'', Quantity = 1\<rparr> [] =
     (Inl ''insufficient permissions'', [])"
proof -
  have guest: "User.Role (testUser ''guest'') \<notin> {RoleViewer, RoleAnalyst, RoleAdmin}"
    by (simp add: testUser_def RoleViewer_def RoleAnalyst_def RoleAdmin_def)
  have super: "''superuser'' \<notin> {RoleViewer, RoleAnalyst, RoleAdmin}"
    by (simp add: RoleViewer_def RoleAnalyst_def RoleAdmin_def)
  show ?thesis
    using unknown_role_rank_zero [OF guest,
        of "mockOrderService None (Inl ''not found'') (Inr (testUser ''guest''))" "UUID_of [1]" "[]"
          "UUID_of [9]" 1 2 3 "\<lparr>ItemID = ''intel-basic'', Quantity = 1\<rparr>"] super
    by (simp add: mock_finders index_validItems)
qed

text \<open>
  C7. When the order and the requesting user both load, \<open>GetOrder\<close> fails with "access
  denied" exactly when the requester is not the order's owner and lacks Analyst-level
  permission, and otherwise returns the order as loaded: the owner always succeeds, a
  different Viewer is always denied, an Analyst or an Admin always succeeds.
\<close>

theorem GetOrder_access:
  assumes "OrderRepository.FindByID (orderRepo s) orderID db = Inr order'"
    and "UserRepository.FindByID (OrderService.userRepo s) userID db = Inr user"
  shows "(GetOrder s orderID userID db = Inl ''access denied'') =
      (Order.UserID order' \<noteq> userID \<and> \<not> HasPermission user RoleAnalyst) \<and>
    (GetOrder s orderID userID db \<noteq> Inl ''access denied'' \<longrightarrow>
       GetOrder s orderID userID db = Inr order') \<and>
    (Order.UserID order' = userID \<longrightarrow> GetOrder s orderID userID db = Inr order') \<and>
    (Order.UserID order' \<noteq> userID \<and> User.Role user = RoleViewer \<longrightarrow>
       GetOrder s orderID userID db = Inl ''access denied'') \<and>
    (User.Role user = RoleAnalyst \<or> User.Role user = RoleAdmin \<longrightarrow>
       GetOrder s orderID userID db = Inr order')"
  using assms
  by (auto simp add: GetOrder_def HasPermission_def index_roleHierarchy role_names_distinct
      role_names_distinct [symmetric])

theorem GetOrder_access_witness:
  "GetOrder (mockOrderService None (Inr testOrder) (Inr (testUser RoleViewer))) (UUID_of [7]) (UUID_of [1]) [] =
     Inr testOrder \<and>
   GetOrder (mockOrderService None (Inr testOrder) (Inr (testUser RoleViewer))) (UUID_of [7]) (UUID_of [2]) [] =
     Inl ''access denied'' \<and>
   GetOrder (mockOrderService None (Inr testOrder) (Inr (testUser RoleAnalyst))) (UUID_of [7]) (UUID_of [2]) [] =
     Inr testOrder \<and>
   GetOrder (mockOrderService None (Inr testOrder) (Inr (testUser RoleAdmin))) (UUID_of [7]) (UUID_of [2]) [] =
     Inr testOrder"
proof -
  have differ: "UUID_of [1] \<noteq> UUID_of [2]"
    by (simp add: UUID_of_eq_iff)
  show ?thesis
    using GetOrder_access [of "mockOrderService None (Inr testOrder) (Inr (testUser RoleViewer))"
        "UUID_of [7]" "[]" testOrder "UUID_of [1]" "testUser RoleViewer"]
      GetOrder_access [of "mockOrderService None (Inr testOrder) (Inr (testUser RoleViewer))"
        "UUID_of [7]" "[]" testOrder "UUID_of [2]" "testUser RoleViewer"]
      GetOrder_access [of "mockOrderService None (Inr testOrder) (Inr (testUser RoleAnalyst))"
        "UUID_of [7]" "[]" testOrder "UUID_of [2]" "testUser RoleAnalyst"]
      GetOrder_access [of "mockOrderService None (Inr testOrder) (Inr (testUser RoleAdmin))"
        "UUID_of [7]" "[]" testOrder "UUID_of [2]" "testUser RoleAdmin"]
      differ
    by (simp add: mock_finders testOrder_def testUser_def)
qed

text \<open>
  C8, as the specification states it, fails on its last case: with an allow-listed item and
  a loaded user holding Viewer permission the call still returns no order when the order
  store's \<open>Save\<close> fails; the storage error comes back instead.
\<close>

theorem CreateOrder_save_failure:
  "index_bool validItems ''intel-basic'' \<and>
   HasPermission (testUser RoleViewer) RoleViewer \<and>
   fst (CreateOrder (mockOrderService (Some ''save failed'') (Inl ''not found'') (Inr (testUser RoleViewer)))
          (UUID_of [9]) 1 2 3 (UUID_of [1]) \<lparr>ItemID = ''intel-basic'', Quantity = 1\<rparr> []) =
     Inl ''save failed''"
  by (simp add: CreateOrder_def mock_finders index_validItems HasPermission_def testUser_def)

text \<open>
  C8, amended. \<open>CreateOrder\<close> fails with "invalid item_id" when the item is outside the
  allow-list intel-basic, intel-premium, intel-enterprise, whatever the user and before any
  lookup; otherwise with "user not found" when the user cannot be loaded; otherwise with
  "insufficient permissions" when the user lacks Viewer permission; otherwise it builds the
  order at Pending, confirms it and hands it to the order store's \<open>Save\<close>: when \<open>Save\<close>
  fails its error is returned as it is, and when it succeeds the call returns the new
  order's identifier, a non-empty string, with status Confirmed.
\<close>

theorem CreateOrder_cases:
  "index_bool validItems i = (i \<in> {''intel-basic'', ''intel-premium'', ''intel-enterprise''}) \<and>
   (\<not> index_bool validItems (CreateOrderRequest.ItemID req) \<longrightarrow>
      CreateOrder s newID now1 now2 now3 userID req db = (Inl ''invalid item_id'', db)) \<and>
   (index_bool validItems (CreateOrderRequest.ItemID req) \<longrightarrow>
      (\<forall>e. UserRepository.FindByID (OrderService.userRepo s) userID db = Inl e \<longrightarrow>
         CreateOrder s newID now1 now2 now3 userID req db = (Inl ''user not found'', db)) \<and>
      (\<forall>user. UserRepository.FindByID (OrderService.userRepo s) userID db = Inr user \<longrightarrow>
         (\<not> HasPermission user RoleViewer \<longrightarrow>
            CreateOrder s newID now1 now2 now3 userID req db = (Inl ''insufficient permissions'', db)) \<and>
         (HasPermission user RoleViewer \<longrightarrow>
            Order.Status (Order (NewOrder newID now1 now2 userID (CreateOrderRequest.ItemID req)
              (CreateOrderRequest.Quantity req))) = OrderStatusPending \<and>
            (\<forall>e db'. OrderRepository.Save (orderRepo s)
                 \<lparr>Order.ID = newID, UserID = userID, ItemID = CreateOrderRequest.ItemID req,
                  Quantity = CreateOrderRequest.Quantity req, Status = OrderStatusConfirmed,
                  CreatedAt = now1, UpdatedAt = now3, User = zeroUser\<rparr> db = (Some e, db') \<longrightarrow>
               CreateOrder s newID now1 now2 now3 userID req db = (Inl e, db')) \<and>
            (\<forall>db'. OrderRepository.Save (orderRepo s)
                 \<lparr>Order.ID = newID, UserID = userID, ItemID = CreateOrderRequest.ItemID req,
                  Quantity = CreateOrderRequest.Quantity req, Status = OrderStatusConfirmed,
                  CreatedAt = now1, UpdatedAt = now3, User = zeroUser\<rparr> db = (None, db') \<longrightarrow>
               CreateOrder s newID now1 now2 now3 userID req db =
                 (Inr \<lparr>OrderID = UUID_String newID, Status = OrderStatusConfirmed\<rparr>, db') \<and>
               UUID_String newID \<noteq> []))))"
  by (simp add: index_validItems CreateOrder_def NewOrder_def Confirm_def UUID_String_not_empty)

theorem CreateOrder_cases_witness:
  "CreateOrder (mockOrderService None (Inl ''not found'') (Inr (testUser RoleViewer)))
      (UUID_of [9]) 1 2 3 (UUID_of [1]) \<lparr>ItemID = ''intel-basic'', Quantity = 1\<rparr> [] =
     (Inr \<lparr>OrderID = UUID_String (UUID_of [9]), Status = OrderStatusConfirmed\<rparr>,
      [\<lparr>Order.ID = UUID_of [9], UserID = UUID_of [1], ItemID = ''intel-basic'', Quantity = 1,
        Status = OrderStatusConfirmed, CreatedAt = 1, UpdatedAt = 3, User = zeroUser\<rparr>]) \<and>
   UUID_String (UUID_of [9]) \<noteq> [] \<and>
   fst (CreateOrder (mockOrderService None (Inl ''not found'') (Inr (testUser RoleViewer)))
      (UUID_of [9]) 1 2 3 (UUID_of [1]) \<lparr>ItemID = ''bogus-item'', Quantity = 1\<rparr> []) =
     Inl ''invalid item_id''"
  using CreateOrder_cases [of "''intel-basic''" "\<lparr>ItemID = ''intel-basic'', Quantity = 1\<rparr>"
      "mockOrderService None (Inl ''not found'') (Inr (testUser RoleViewer))" "UUID_of [9]" 1 2 3
      "UUID_of [1]" "[]"]
    CreateOrder_cases [of "''intel-basic''" "\<lparr>ItemID = ''bogus-item'', Quantity = 1\<rparr>"
      "mockOrderService None (Inl ''not found'') (Inr (testUser RoleViewer))" "UUID_of [9]" 1 2 3
      "UUID_of [1]" "[]"]
  by (simp add: mock_finders HasPermission_def index_roleHierarchy index_validItems testUser_def
      role_names_distinct role_names_distinct [symmetric])

section \<open>Printing and parsing a UUID\<close>

lemma nat_less_16_cases:
  "(k::nat) < 16 \<Longrightarrow> k = 0 \<or> k = 1 \<or> k = 2 \<or> k = 3 \<or> k = 4 \<or> k = 5 \<or> k = 6 \<or> k = 7 \<or>
     k = 8 \<or> k = 9 \<or> k = 10 \<or> k = 11 \<or> k = 12 \<or> k = 13 \<or> k = 14 \<or> k = 15"
  by arith

lemma xvalues_digit: "k < 16 \<Longrightarrow> xvalues (''0123456789abcdef'' ! k) = of_nat k"
  by (drule nat_less_16_cases) (elim disjE; simp add: xvalues_def)

lemma xvalues_hexdigit:
  assumes "(n :: 8 word) < 16"
  shows "xvalues (hexdigit n) = n"
proof -
  have "unat n < 16"
    using assms by (simp add: word_less_nat_alt)
  then have "xvalues (hexdigit n) = of_nat (unat n)"
    by (simp only: hexdigit_def xvalues_digit)
  then show ?thesis
    by simp
qed

lemma high_nibble_less: "drop_bit 4 (b :: 8 word) < 16"
proof -
  have "unat (drop_bit 4 b) = unat b div 16"
    by (simp add: drop_bit_eq_div unat_div)
  moreover have "unat b < 256"
    using unsigned_less [of b, where ?'a = nat] by simp
  ultimately have "unat (drop_bit 4 b) < 16"
    by linarith
  then show ?thesis
    by (simp add: word_less_nat_alt)
qed

lemma nibble_mask: "(0x0f :: 8 word) = mask 4"
  by (simp add: mask_eq_exp_minus_1)

lemma low_nibble_less: "(b :: 8 word) AND 0x0f < 16"
proof -
  have "unat (take_bit 4 b) < 2 ^ 4"
    using take_bit_nat_less_exp [of 4 "unat b"] by (simp add: unsigned_take_bit_eq)
  then have "unat (b AND 0x0f) < 16"
    by (simp add: nibble_mask take_bit_eq_mask)
  then show ?thesis
    by (simp add: word_less_nat_alt)
qed

lemma byte_nibbles: "push_bit 4 (drop_bit 4 b) OR (b AND 0x0f) = (b :: 8 word)"
proof -
  have "push_bit 4 (drop_bit 4 b) OR take_bit 4 b = b"
    by (rule bit_eqI) (auto simp add: bit_or_iff bit_push_bit_iff bit_drop_bit_eq bit_take_bit_iff)
  then show ?thesis
    by (simp add: nibble_mask take_bit_eq_mask)
qed

lemma xtob_hex: "xtob (hexdigit (drop_bit 4 b)) (hexdigit (b AND 0x0f)) = (b, True)"
proof -
  have h: "drop_bit 4 b \<noteq> 255" using high_nibble_less [of b] by auto
  have l: "b AND 0x0f \<noteq> 255" using low_nibble_less [of b] by auto
  show ?thesis
    by (simp add: xtob_def xvalues_hexdigit high_nibble_less low_nibble_less byte_nibbles Let_def h l)
qed

lemma len16:
  "length bs = 16 \<Longrightarrow> \<exists>b0 b1 b2 b3 b4 b5 b6 b7 b8 b9 b10 b11 b12 b13 b14 b15.
     bs = [b0, b1, b2, b3, b4, b5, b6, b7, b8, b9, b10, b11, b12, b13, b14, b15]"
  by (simp add: eval_nat_numeral length_Suc_conv) blast

lemma parse36_String: "parse36 L (UUID_String u) = Inr u"
proof -
  obtain b0 b1 b2 b3 b4 b5 b6 b7 b8 b9 b10 b11 b12 b13 b14 b15 where
    r: "Rep_UUID u = [b0, b1, b2, b3, b4, b5, b6, b7, b8, b9, b10, b11, b12, b13, b14, b15]"
    using len16 [OF length_Rep_UUID [of u]] by blast
  have "parse36 L (UUID_String u) = Inr (UUID_of (Rep_UUID u))"
    by (simp add: r parse36_def UUID_String_def hex_Encode_def xtob_hex)
  also have "UUID_of (Rep_UUID u) = u"
    by (simp add: UUID_of_def length_Rep_UUID Rep_UUID_inverse)
  finally show ?thesis .
qed

lemma uuid_Parse_String: "uuid_Parse L (UUID_String u) = Inr u"
  by (simp add: uuid_Parse_def length_UUID_String parse36_String)

section \<open>The token service\<close>

lemma GenerateAccessToken_eq:
  "GenerateAccessToken L s now1 now2 userID r =
     Inr (Compact (Some ''HS256'')
       \<lparr>user_id = StringMember (UUID_String userID), role = StringMember r, iss = None,
        sub = Some (UUID_String userID), aud = None,
        exp = Some (NewNumericDate (now1 + accessTokenTTL s)), nbf = None,
        iat = Some (NewNumericDate now2), jti = None\<rparr>
       (Inr (HMAC_Sign L HS256
          (SigningString L (Some ''HS256'')
             \<lparr>user_id = StringMember (UUID_String userID), role = StringMember r, iss = None,
              sub = Some (UUID_String userID), aud = None,
              exp = Some (NewNumericDate (now1 + accessTokenTTL s)), nbf = None,
              iat = Some (NewNumericDate now2), jti = None\<rparr>)
          (secretKey s))))"
  by (simp add: GenerateAccessToken_def SignedString_def marshal_Claims_def
      marshal_RegisteredClaims_def omitempty_def UUID_String_not_empty)

lemma GenerateRefreshToken_eq:
  "GenerateRefreshToken L s now1 now2 userID =
     Inr (Compact (Some ''HS256'')
       \<lparr>user_id = NoMember, role = NoMember, iss = None,
        sub = Some (UUID_String userID), aud = None,
        exp = Some (NewNumericDate (now1 + refreshTokenTTL s)), nbf = None,
        iat = Some (NewNumericDate now2), jti = None\<rparr>
       (Inr (HMAC_Sign L HS256
          (SigningString L (Some ''HS256'')
             \<lparr>user_id = NoMember, role = NoMember, iss = None,
              sub = Some (UUID_String userID), aud = None,
              exp = Some (NewNumericDate (now1 + refreshTokenTTL s)), nbf = None,
              iat = Some (NewNumericDate now2), jti = None\<rparr>)
          (secretKey s))))"
  by (simp add: GenerateRefreshToken_def SignedString_def
      marshal_RegisteredClaims_def omitempty_def UUID_String_not_empty)

lemma GetSigningMethod_HMAC:
  "(GetSigningMethod alg = Some (HMAC m)) = (alg = Alg m)"
  by (cases m) (auto simp add: GetSigningMethod_def nonHMACMethods_def)

lemma Validate_Nil:
  "(Validate now c = []) =
     ((case ExpiresAt c of None \<Rightarrow> True | Some e \<Rightarrow> now < NumericDate_Time e) \<and>
      (case NotBefore c of None \<Rightarrow> True | Some n \<Rightarrow> NumericDate_Time n \<le> now))"
  by (auto simp add: Validate_def split: option.splits)

lemma ParseWithClaims_Inr:
  "(ParseWithClaims L now tok decode key = Inr t) =
     (\<exists>m p sg c. tok = Compact (Some (Alg m)) p (Inr sg) \<and> decode p = Some c \<and>
        sg = HMAC_Sign L m (SigningString L (Some (Alg m)) p) key \<and> Validate now c = [] \<and>
        t = \<lparr>Method = HMAC m, Claims = c, Signature = sg, Valid = True\<rparr>)"
proof (cases tok)
  case (NotCompact s)
  then show ?thesis
    by (simp add: ParseWithClaims_def)
next
  case (Compact alg p segment)
  show ?thesis
  proof (cases alg)
    case None
    with Compact show ?thesis
      by (simp add: ParseWithClaims_def split: option.splits)
  next
    case (Some a)
    show ?thesis
    proof (cases "GetSigningMethod a")
      case None
      then have "a \<noteq> Alg m" for m
        using GetSigningMethod_HMAC [of a m] by auto
      with Compact Some None show ?thesis
        by (simp add: ParseWithClaims_def split: option.splits)
    next
      case (Some sm)
      note sm = this
      show ?thesis
      proof (cases sm)
        case (HMAC m)
        with sm have a: "a = Alg m"
          by (simp add: GetSigningMethod_HMAC)
        have inj: "(Alg m = Alg m') = (m = m')" for m'
          by (cases m; cases m'; simp)
        show ?thesis
        proof (cases segment)
          case (Inl raw)
          with Compact \<open>alg = Some a\<close> sm show ?thesis
            by (simp add: ParseWithClaims_def split: option.splits)
        next
          case (Inr sg)
          with Compact \<open>alg = Some a\<close> sm HMAC a show ?thesis
            by (auto simp add: ParseWithClaims_def inj split: option.splits)
        qed
      next
        case (NonHMAC x)
        with sm have "a \<noteq> Alg m" for m
          using GetSigningMethod_HMAC [of a m] by auto
        with Compact \<open>alg = Some a\<close> sm NonHMAC show ?thesis
          by (simp add: ParseWithClaims_def split: option.splits sum.splits)
      qed
    qed
  qed
qed

lemma Alg_inject: "(Alg m = Alg m') = (m = m')"
  by (cases m; cases m'; simp)

lemma ValidateAccessToken_Inr:
  "(ValidateAccessToken L s now tok = Inr c) =
     (\<exists>m p sg. tok = Compact (Some (Alg m)) p (Inr sg) \<and> unmarshal_Claims L p = Some c \<and>
        sg = HMAC_Sign L m (SigningString L (Some (Alg m)) p) (secretKey s) \<and>
        Validate now c = [])"
proof (cases "ParseWithClaims L now tok (unmarshal_Claims L) (secretKey s)")
  case (Inl e)
  then have "\<And>t. ParseWithClaims L now tok (unmarshal_Claims L) (secretKey s) \<noteq> Inr t"
    by simp
  then have "\<not> (\<exists>m p sg. tok = Compact (Some (Alg m)) p (Inr sg) \<and> unmarshal_Claims L p = Some c \<and>
        sg = HMAC_Sign L m (SigningString L (Some (Alg m)) p) (secretKey s) \<and>
        Validate now c = [])"
    unfolding ParseWithClaims_Inr by blast
  with Inl show ?thesis
    by (simp add: ValidateAccessToken_def)
next
  case (Inr t)
  from Inr [unfolded ParseWithClaims_Inr] obtain m p c' where
    tok: "tok = Compact (Some (Alg m)) p (Inr (HMAC_Sign L m (SigningString L (Some (Alg m)) p) (secretKey s)))"
    and dec: "unmarshal_Claims L p = Some c'" and val: "Validate now c' = []"
    and t: "t = \<lparr>Method = HMAC m, Claims = c',
      Signature = HMAC_Sign L m (SigningString L (Some (Alg m)) p) (secretKey s), Valid = True\<rparr>"
    by blast
  have V: "ValidateAccessToken L s now tok = Inr c'"
    using Inr t by (simp add: ValidateAccessToken_def)
  show ?thesis
    unfolding V using tok dec val by (auto simp add: Alg_inject)
qed

lemma ValidateRefreshToken_Inr:
  "(ValidateRefreshToken L s now tok = Inr u) =
     (\<exists>m p sg. tok = Compact (Some (Alg m)) p (Inr sg) \<and>
        sg = HMAC_Sign L m (SigningString L (Some (Alg m)) p) (secretKey s) \<and>
        Validate now (unmarshal_RegisteredClaims p) = [] \<and>
        uuid_Parse L (present (sub p)) = Inr u)"
proof (cases "ParseWithClaims L now tok (\<lambda>p. Some (unmarshal_RegisteredClaims p)) (secretKey s)")
  case (Inl e)
  then have "\<And>t. ParseWithClaims L now tok (\<lambda>p. Some (unmarshal_RegisteredClaims p)) (secretKey s) \<noteq> Inr t"
    by simp
  then have "\<not> (\<exists>m p sg. tok = Compact (Some (Alg m)) p (Inr sg) \<and>
        sg = HMAC_Sign L m (SigningString L (Some (Alg m)) p) (secretKey s) \<and>
        Validate now (unmarshal_RegisteredClaims p) = [] \<and>
        uuid_Parse L (present (sub p)) = Inr u)"
    unfolding ParseWithClaims_Inr by blast
  with Inl show ?thesis
    by (simp add: ValidateRefreshToken_def)
next
  case (Inr t)
  from Inr [unfolded ParseWithClaims_Inr] obtain m p where
    tok: "tok = Compact (Some (Alg m)) p (Inr (HMAC_Sign L m (SigningString L (Some (Alg m)) p) (secretKey s)))"
    and val: "Validate now (unmarshal_RegisteredClaims p) = []"
    and t: "t = \<lparr>Method = HMAC m, Claims = unmarshal_RegisteredClaims p,
      Signature = HMAC_Sign L m (SigningString L (Some (Alg m)) p) (secretKey s), Valid = True\<rparr>"
    by blast
  have V: "ValidateRefreshToken L s now tok = uuid_Parse L (present (sub p))"
    using Inr t by (simp add: ValidateRefreshToken_def unmarshal_RegisteredClaims_def split: sum.splits option.splits)
  show ?thesis
    unfolding V using tok val by (auto simp add: Alg_inject)
qed

lemma Alg_HS256: "(''HS256'' = Alg m) = (m = HS256)"
  by (cases m) simp_all

lemma unmarshal_access_payload:
  "unmarshal_Claims L
     \<lparr>user_id = StringMember (UUID_String userID), role = StringMember r, iss = None,
      sub = Some (UUID_String userID), aud = None, exp = Some e, nbf = None,
      iat = Some i, jti = None\<rparr> =
   Some \<lparr>Issuer = [], Subject = UUID_String userID, Audience = [], ExpiresAt = Some e,
        NotBefore = None, IssuedAt = Some i, RegisteredClaims.ID = [],
        UserID = userID, Role = r\<rparr>"
  by (simp add: unmarshal_Claims_def uuid_Parse_String present_def)

lemma issued_access_token_accepted:
  "(ValidateAccessToken L s' now
      (Compact (Some ''HS256'')
         \<lparr>user_id = StringMember (UUID_String userID), role = StringMember r, iss = None,
          sub = Some (UUID_String userID), aud = None, exp = Some e, nbf = None,
          iat = Some i, jti = None\<rparr> (Inr sg)) = Inr c) =
   (sg = HMAC_Sign L HS256
           (SigningString L (Some ''HS256'')
              \<lparr>user_id = StringMember (UUID_String userID), role = StringMember r, iss = None,
               sub = Some (UUID_String userID), aud = None, exp = Some e, nbf = None,
               iat = Some i, jti = None\<rparr>) (secretKey s') \<and>
    now < NumericDate_Time e \<and>
    c = \<lparr>Issuer = [], Subject = UUID_String userID, Audience = [], ExpiresAt = Some e,
         NotBefore = None, IssuedAt = Some i, RegisteredClaims.ID = [],
         UserID = userID, Role = r\<rparr>)"
  unfolding ValidateAccessToken_Inr
  by (auto simp add: Alg_HS256 unmarshal_access_payload Validate_Nil)

lemma issued_token_as_refresh_token:
  assumes "sub p = Some (UUID_String userID)" and "exp p = Some e" and "nbf p = None"
  shows "(ValidateRefreshToken L s' now (Compact (Some ''HS256'') p (Inr sg)) = Inr u) =
   (sg = HMAC_Sign L HS256 (SigningString L (Some ''HS256'') p) (secretKey s') \<and>
    now < NumericDate_Time e \<and> u = userID)"
  unfolding ValidateRefreshToken_Inr
  using assms
  by (auto simp add: Alg_HS256 Validate_Nil unmarshal_RegisteredClaims_def present_def
      uuid_Parse_String)

lemma test_expiry:
  "NumericDate_Time (NewNumericDate (accessTokenTTL (NewService secret))) = 900000000000"
  by (simp add: NumericDate_Time_def NewNumericDate_def NewService_def time_Minute_def
      time_Second_def)




text \<open>
  C2. \<open>ValidateRefreshToken\<close> accepts an access token issued by the same service for any
  user ID and role, at a clock reading before the token's expiry, and returns that user ID
  without error: the verifier of refresh tokens does not tell the two kinds of token apart.
\<close>

theorem access_token_accepted_as_refresh_token:
  assumes "now < NumericDate_Time (NewNumericDate (now1 + accessTokenTTL s))"
  shows "\<exists>tok. GenerateAccessToken L s now1 now2 userID r = Inr tok \<and>
      ValidateRefreshToken L s now tok = Inr userID"
  using assms
  by (simp add: GenerateAccessToken_eq issued_token_as_refresh_token)

theorem access_token_accepted_as_refresh_token_witness:
  "\<forall>L. \<exists>tok. GenerateAccessToken L (NewService ''test-secret'') 0 0 (UUID_of [1]) RoleViewer = Inr tok \<and>
      ValidateRefreshToken L (NewService ''test-secret'') 1 tok = Inr (UUID_of [1])"
proof
  fix L
  have "(1 :: int) < NumericDate_Time (NewNumericDate (0 + accessTokenTTL (NewService ''test-secret'')))"
    by (simp add: NumericDate_Time_def NewNumericDate_def NewService_def time_Minute_def
        time_Second_def)
  from access_token_accepted_as_refresh_token [OF this, of L 0 "UUID_of [1]" RoleViewer]
  show "\<exists>tok. GenerateAccessToken L (NewService ''test-secret'') 0 0 (UUID_of [1]) RoleViewer = Inr tok \<and>
      ValidateRefreshToken L (NewService ''test-secret'') 1 tok = Inr (UUID_of [1])" .
qed

lemma take_zeros:
  assumes "j \<le> Suc i"
  shows "take j (0 # replicate i (0 :: 8 word)) = replicate j 0"
proof -
  have "take j (replicate (Suc i) (0 :: 8 word)) = replicate j 0"
    using assms by (simp only: take_replicate min_absorb1)
  then show ?thesis
    by simp
qed

lemma zero_padded_block:
  assumes "length key < n"
  shows "take n ((key @ [0 :: 8 word]) @ replicate n 0) = take n (key @ replicate n 0)"
  using assms by (simp add: take_zeros)

lemma hmac_pads_zero_padded:
  assumes "length key < blocksize"
  shows "hmac_pads h blocksize (key @ [0]) = hmac_pads h blocksize key"
proof -
  have c1: "\<not> length (key @ [0 :: 8 word]) > blocksize" and c2: "\<not> length key > blocksize"
    using assms by simp_all
  show ?thesis
    unfolding hmac_pads_def Let_def
    by (simp only: c1 c2 if_False zero_padded_block [OF assms])
qed

lemma hmac_Sum_zero_padded:
  assumes "length key < blocksize"
  shows "hmac_Sum h blocksize (key @ [0]) msg = hmac_Sum h blocksize key msg"
  unfolding hmac_Sum_def by (simp only: hmac_pads_zero_padded [OF assms])

lemma secretKey_NewService: "secretKey (NewService k) = map of_char k"
  by (simp add: NewService_def)

text \<open>
  C4, as the specification states it, fails on its last part: a verifier configured with a
  different secret does not always reject. HMAC fills a key shorter than the block of the
  hash with zero bytes, so the secret k and the secret k followed by a zero byte differ and
  sign alike: an access token issued under the first is accepted, with its claims, by a
  verifier configured with the second.
\<close>

theorem zero_padded_secret_accepted:
  "\<forall>L. secretKey (NewService [CHR ''k'', CHR 0x00]) \<noteq> secretKey (NewService [CHR ''k'']) \<and>
     (\<exists>tok c. GenerateAccessToken L (NewService [CHR ''k'']) 0 0 (UUID_of [1]) RoleViewer = Inr tok \<and>
        ValidateAccessToken L (NewService [CHR ''k'', CHR 0x00]) 1 tok = Inr c \<and>
        Claims.UserID c = UUID_of [1] \<and> Claims.Role c = RoleViewer)"
proof
  fix L :: Extern
  have key: "secretKey (NewService [CHR ''k'', CHR 0x00]) = secretKey (NewService [CHR ''k'']) @ [0]"
    by (simp add: secretKey_NewService)
  have len: "length (secretKey (NewService [CHR ''k''])) < 64"
    by (simp add: secretKey_NewService)
  have mac: "hmac_Sum (SHA256 L) 64 (secretKey (NewService [CHR ''k'', CHR 0x00])) msg =
      hmac_Sum (SHA256 L) 64 (secretKey (NewService [CHR ''k''])) msg" for msg
    unfolding key by (rule hmac_Sum_zero_padded [OF len])
  have live: "(1 :: int) < NumericDate_Time (NewNumericDate (0 + accessTokenTTL (NewService [CHR ''k''])))"
    by (simp add: NumericDate_Time_def NewNumericDate_def NewService_def time_Minute_def
        time_Second_def)
  show "secretKey (NewService [CHR ''k'', CHR 0x00]) \<noteq> secretKey (NewService [CHR ''k'']) \<and>
     (\<exists>tok c. GenerateAccessToken L (NewService [CHR ''k'']) 0 0 (UUID_of [1]) RoleViewer = Inr tok \<and>
        ValidateAccessToken L (NewService [CHR ''k'', CHR 0x00]) 1 tok = Inr c \<and>
        Claims.UserID c = UUID_of [1] \<and> Claims.Role c = RoleViewer)"
    using live by (simp add: GenerateAccessToken_eq issued_access_token_accepted mac)
       (simp add: secretKey_NewService)
qed

text \<open>
  C4, amended. \<open>ValidateAccessToken\<close> returns claims exactly when the token string is the
  compact form of a token whose header names one of the methods HS256, HS384 and HS512,
  whose claims object decodes into those claims, whose signature is the HMAC, by that
  method and under the verifier's secret, of the signing string, whose expiry, if it has
  one, lies after the clock reading, and whose not-before, if it has one, does not; in
  every other case it returns an error. In particular, an access token issued by one
  service is rejected by a verifier exactly when the HMAC of its signing string under the
  verifier's secret differs from its signature or the clock reading has reached its
  expiry.
\<close>

theorem ValidateAccessToken_accepts_iff:
  "(ValidateAccessToken L s now tok = Inr c) =
     (\<exists>m p sg. tok = Compact (Some (Alg m)) p (Inr sg) \<and> unmarshal_Claims L p = Some c \<and>
        sg = HMAC_Sign L m (SigningString L (Some (Alg m)) p) (secretKey s) \<and>
        (case ExpiresAt c of None \<Rightarrow> True | Some e \<Rightarrow> now < NumericDate_Time e) \<and>
        (case NotBefore c of None \<Rightarrow> True | Some n \<Rightarrow> NumericDate_Time n \<le> now)) \<and>
   isl (ValidateAccessToken L s now tok) = (\<nexists>c'. ValidateAccessToken L s now tok = Inr c') \<and>
   (\<exists>p sg. GenerateAccessToken L s1 now1 now2 userID r = Inr (Compact (Some ''HS256'') p (Inr sg)) \<and>
      sg = HMAC_Sign L HS256 (SigningString L (Some ''HS256'') p) (secretKey s1) \<and>
      (isl (ValidateAccessToken L s2 now (Compact (Some ''HS256'') p (Inr sg))) =
         (HMAC_Sign L HS256 (SigningString L (Some ''HS256'') p) (secretKey s2) \<noteq> sg \<or>
          NumericDate_Time (NewNumericDate (now1 + accessTokenTTL s1)) \<le> now)))"
proof -
  have A: "(ValidateAccessToken L s now tok = Inr c) =
     (\<exists>m p sg. tok = Compact (Some (Alg m)) p (Inr sg) \<and> unmarshal_Claims L p = Some c \<and>
        sg = HMAC_Sign L m (SigningString L (Some (Alg m)) p) (secretKey s) \<and>
        (case ExpiresAt c of None \<Rightarrow> True | Some e \<Rightarrow> now < NumericDate_Time e) \<and>
        (case NotBefore c of None \<Rightarrow> True | Some n \<Rightarrow> NumericDate_Time n \<le> now))"
    unfolding ValidateAccessToken_Inr Validate_Nil by blast
  have B: "isl x = (\<nexists>c'. x = Inr c')" for x :: "error + Claims"
    by (cases x) simp_all
  have C: "isl (ValidateAccessToken L s2 now (Compact (Some ''HS256'') p (Inr sg))) =
         (HMAC_Sign L HS256 (SigningString L (Some ''HS256'') p) (secretKey s2) \<noteq> sg \<or>
          NumericDate_Time e \<le> now)"
    if "p = \<lparr>user_id = StringMember (UUID_String userID), role = StringMember r, iss = None,
          sub = Some (UUID_String userID), aud = None, exp = Some e, nbf = None,
          iat = Some i, jti = None\<rparr>" for p sg e i
    unfolding B that issued_access_token_accepted by auto
  show ?thesis
    apply (intro conjI)
      apply (rule A)
     apply (rule B)
    apply (simp only: GenerateAccessToken_eq sum.inject TokenString.inject)
    apply (intro exI conjI)
        apply (rule refl)+
    apply (rule C)
    apply (rule refl)
    done
qed

theorem ValidateAccessToken_accepts_iff_witness:
  "\<forall>L. \<exists>p sg.
     GenerateAccessToken L (NewService ''test-secret'') 0 0 (UUID_of [1]) RoleViewer =
       Inr (Compact (Some ''HS256'') p (Inr sg)) \<and>
     \<not> isl (ValidateAccessToken L (NewService ''test-secret'') 899999999999 (Compact (Some ''HS256'') p (Inr sg))) \<and>
     isl (ValidateAccessToken L (NewService ''test-secret'') 900000000000 (Compact (Some ''HS256'') p (Inr sg)))"
proof
  fix L :: Extern
  from ValidateAccessToken_accepts_iff [of L "NewService ''test-secret''" 899999999999
      "NotCompact []" undefined "NewService ''test-secret''" 0 0 "UUID_of [1]" RoleViewer
      "NewService ''test-secret''"]
  obtain p sg where
    gen: "GenerateAccessToken L (NewService ''test-secret'') 0 0 (UUID_of [1]) RoleViewer =
       Inr (Compact (Some ''HS256'') p (Inr sg))"
    and sg: "sg = HMAC_Sign L HS256 (SigningString L (Some ''HS256'') p) (secretKey (NewService ''test-secret''))"
    and a: "isl (ValidateAccessToken L (NewService ''test-secret'') 899999999999 (Compact (Some ''HS256'') p (Inr sg))) =
         (HMAC_Sign L HS256 (SigningString L (Some ''HS256'') p) (secretKey (NewService ''test-secret'')) \<noteq> sg \<or>
          NumericDate_Time (NewNumericDate (0 + accessTokenTTL (NewService ''test-secret''))) \<le> 899999999999)"
    by blast
  from ValidateAccessToken_accepts_iff [of L "NewService ''test-secret''" 900000000000
      "NotCompact []" undefined "NewService ''test-secret''" 0 0 "UUID_of [1]" RoleViewer
      "NewService ''test-secret''"] gen
  have b: "isl (ValidateAccessToken L (NewService ''test-secret'') 900000000000 (Compact (Some ''HS256'') p (Inr sg))) =
         (HMAC_Sign L HS256 (SigningString L (Some ''HS256'') p) (secretKey (NewService ''test-secret'')) \<noteq> sg \<or>
          NumericDate_Time (NewNumericDate (0 + accessTokenTTL (NewService ''test-secret''))) \<le> 900000000000)"
    by auto
  show "\<exists>p sg.
     GenerateAccessToken L (NewService ''test-secret'') 0 0 (UUID_of [1]) RoleViewer =
       Inr (Compact (Some ''HS256'') p (Inr sg)) \<and>
     \<not> isl (ValidateAccessToken L (NewService ''test-secret'') 899999999999 (Compact (Some ''HS256'') p (Inr sg))) \<and>
     isl (ValidateAccessToken L (NewService ''test-secret'') 900000000000 (Compact (Some ''HS256'') p (Inr sg)))"
    using gen a b sg [symmetric] by (simp add: test_expiry)
qed

section \<open>The authentication service\<close>

lemma mock_auth:
  "UserRepository.FindByID (AuthService.userRepo (mockAuthService found secret)) i db = found"
  "UserRepository.FindByEmail (AuthService.userRepo (mockAuthService found secret)) e db = found"
  "jwtService (mockAuthService found secret) = NewService secret"
  by (simp_all add: mockAuthService_def mockUserRepo_def)

text \<open>
  C6. \<open>Login\<close> fails with "invalid credentials" when the repository finds no user for the
  email; with "account is inactive" when the user found is not active, whether or not the
  password is right; with the same "invalid credentials" when the user is active and the
  password does not verify; and otherwise succeeds, returning the access token and the
  refresh token that the token service generates for the user's ID and role, and the user.
\<close>

theorem Login_cases:
  "(\<forall>e. UserRepository.FindByEmail (AuthService.userRepo s) (LoginRequest.Email req) db = Inl e \<longrightarrow>
      Login compare L s now1 now2 now3 now4 req db = Inl ''invalid credentials'') \<and>
   (\<forall>user. UserRepository.FindByEmail (AuthService.userRepo s) (LoginRequest.Email req) db = Inr user \<longrightarrow>
      (\<not> IsActive user \<longrightarrow>
         Login compare L s now1 now2 now3 now4 req db = Inl ''account is inactive'') \<and>
      (IsActive user \<and> \<not> ValidatePassword compare user (Password req) \<longrightarrow>
         Login compare L s now1 now2 now3 now4 req db = Inl ''invalid credentials'') \<and>
      (IsActive user \<and> ValidatePassword compare user (Password req) \<longrightarrow>
         (\<exists>at rt. Login compare L s now1 now2 now3 now4 req db =
              Inr \<lparr>AccessToken = at, RefreshToken = rt, User = user\<rparr> \<and>
            GenerateAccessToken L (jwtService s) now1 now2 (User.ID user) (User.Role user) = Inr at \<and>
            GenerateRefreshToken L (jwtService s) now3 now4 (User.ID user) = Inr rt)))"
  by (simp add: Login_def GenerateAccessToken_eq GenerateRefreshToken_eq)

theorem Login_cases_witness:
  "\<forall>L.
     Login testCompare L (mockAuthService (Inl ''record not found'') ''test-secret'') 1 2 3 4
       \<lparr>Email = ''test@example.com'', Password = ''password123''\<rparr> [] = Inl ''invalid credentials'' \<and>
     ValidatePassword testCompare ((testUser RoleViewer)\<lparr>IsActive := False\<rparr>) ''password123'' \<and>
     Login testCompare L (mockAuthService (Inr ((testUser RoleViewer)\<lparr>IsActive := False\<rparr>)) ''test-secret'') 1 2 3 4
       \<lparr>Email = ''test@example.com'', Password = ''password123''\<rparr> [] = Inl ''account is inactive'' \<and>
     Login testCompare L (mockAuthService (Inr (testUser RoleViewer)) ''test-secret'') 1 2 3 4
       \<lparr>Email = ''test@example.com'', Password = ''wrongpassword''\<rparr> [] = Inl ''invalid credentials'' \<and>
     (\<exists>at rt. Login testCompare L (mockAuthService (Inr (testUser RoleViewer)) ''test-secret'') 1 2 3 4
        \<lparr>Email = ''test@example.com'', Password = ''password123''\<rparr> [] =
          Inr \<lparr>AccessToken = at, RefreshToken = rt, User = testUser RoleViewer\<rparr>)"
proof
  fix L :: Extern
  have ok: "ValidatePassword testCompare (testUser RoleViewer) ''password123''"
    and ok': "ValidatePassword testCompare ((testUser RoleViewer)\<lparr>IsActive := False\<rparr>) ''password123''"
    and bad: "\<not> ValidatePassword testCompare (testUser RoleViewer) ''wrongpassword''"
    by (simp_all add: ValidatePassword_def testCompare_def testUser_def)
  have act: "IsActive (testUser RoleViewer)" "\<not> IsActive ((testUser RoleViewer)\<lparr>IsActive := False\<rparr>)"
    by (simp_all add: testUser_def)
  show "Login testCompare L (mockAuthService (Inl ''record not found'') ''test-secret'') 1 2 3 4
       \<lparr>Email = ''test@example.com'', Password = ''password123''\<rparr> [] = Inl ''invalid credentials'' \<and>
     ValidatePassword testCompare ((testUser RoleViewer)\<lparr>IsActive := False\<rparr>) ''password123'' \<and>
     Login testCompare L (mockAuthService (Inr ((testUser RoleViewer)\<lparr>IsActive := False\<rparr>)) ''test-secret'') 1 2 3 4
       \<lparr>Email = ''test@example.com'', Password = ''password123''\<rparr> [] = Inl ''account is inactive'' \<and>
     Login testCompare L (mockAuthService (Inr (testUser RoleViewer)) ''test-secret'') 1 2 3 4
       \<lparr>Email = ''test@example.com'', Password = ''wrongpassword''\<rparr> [] = Inl ''invalid credentials'' \<and>
     (\<exists>at rt. Login testCompare L (mockAuthService (Inr (testUser RoleViewer)) ''test-secret'') 1 2 3 4
        \<lparr>Email = ''test@example.com'', Password = ''password123''\<rparr> [] =
          Inr \<lparr>AccessToken = at, RefreshToken = rt, User = testUser RoleViewer\<rparr>)"
    using
      Login_cases [of "mockAuthService (Inl ''record not found'') ''test-secret''"
        "\<lparr>Email = ''test@example.com'', Password = ''password123''\<rparr>" "[]" testCompare L 1 2 3 4]
      Login_cases [of "mockAuthService (Inr ((testUser RoleViewer)\<lparr>IsActive := False\<rparr>)) ''test-secret''"
        "\<lparr>Email = ''test@example.com'', Password = ''password123''\<rparr>" "[]" testCompare L 1 2 3 4]
      Login_cases [of "mockAuthService (Inr (testUser RoleViewer)) ''test-secret''"
        "\<lparr>Email = ''test@example.com'', Password = ''wrongpassword''\<rparr>" "[]" testCompare L 1 2 3 4]
      Login_cases [of "mockAuthService (Inr (testUser RoleViewer)) ''test-secret''"
        "\<lparr>Email = ''test@example.com'', Password = ''password123''\<rparr>" "[]" testCompare L 1 2 3 4]
      ok ok' bad act
    by (simp add: mock_auth) blast
qed



end
